theory Spec2Isabelle
  imports Main
begin

section \<open>The safe caching utility (getCached, invalidateCache, invalidateCaches, preCache)\<close>

text \<open>
  The module wraps an asynchronous key-value store (\<^verbatim>\<open>load\<close>, \<^verbatim>\<open>save\<close>, \<^verbatim>\<open>remove\<close> of
  \<^verbatim>\<open>./storage\<close>) with expiry, a version check, timeouts and a stale fallback. The embedding
  makes the asynchronous behaviour explicit:
  \<^item> a promise is the way it settles: fulfilled or rejected after a number of milliseconds
    counted from its creation, or never;
  \<^item> \<^verbatim>\<open>await\<close> is a case distinction on the promise, \<^verbatim>\<open>try/catch\<close> is the branch of
    the rejected case, and the milliseconds of successive awaits add up;
  \<^item> \<^verbatim>\<open>Date.now()\<close> is the clock at the start of the call plus the milliseconds awaited so far;
  \<^item> the store is a map from keys to entries, passed in and returned; a write that is not
    awaited is returned apart, with the time it takes to land;
  \<^item> the number of invocations of \<^verbatim>\<open>fetchFn\<close> is returned with the result.
  Console output is not modelled.
\<close>

subsection \<open>Values\<close>

text \<open>
  The cached data is any JavaScript value (the type parameter \<^verbatim>\<open>T\<close>); the code tests it for
  truthiness. Numbers are modelled as integers, with \<open>NaN\<close> apart.
\<close>

datatype jsval =
    Undefined
  | Null
  | Bool bool
  | Num int
  | NaN
  | Str string
  | Arr "jsval list"
  | Obj "(string \<times> jsval) list"

fun truthy :: "jsval \<Rightarrow> bool" where
  "truthy Undefined = False"
| "truthy Null = False"
| "truthy (Bool b) = b"
| "truthy (Num n) = (n \<noteq> 0)"
| "truthy NaN = False"
| "truthy (Str s) = (s \<noteq> [])"
| "truthy (Arr xs) = True"
| "truthy (Obj fs) = True"

subsection \<open>Promises and withTimeout\<close>

datatype error =
    Timeout nat   \<comment> \<open>\<^verbatim>\<open>new Error(`Timeout after ${ms}ms`)\<close>\<close>
  | Failure string   \<comment> \<open>whatever a collaborator rejected with\<close>

datatype 'a promise =
    Resolves nat 'a   \<comment> \<open>fulfilled with the value, so many milliseconds after its creation\<close>
  | Rejects nat error   \<comment> \<open>rejected, so many milliseconds after its creation\<close>
  | Never   \<comment> \<open>never settles\<close>

text \<open>
  \<^verbatim>\<open>withTimeout(promise, ms)\<close>: a timer of \<open>ms\<close> milliseconds and the promise race, the one
  that settles first decides. A promise that settles in the very millisecond of the timer is
  taken to win (an already settled promise wins against \<^verbatim>\<open>setTimeout(_, 0)\<close>).
\<close>

definition withTimeout :: "'a promise \<Rightarrow> nat \<Rightarrow> 'a promise" where
  "withTimeout promise ms =
     (case promise of
        Resolves d result \<Rightarrow> if d \<le> ms then Resolves d result else Rejects ms (Timeout ms)
      | Rejects d err \<Rightarrow> if d \<le> ms then Rejects d err else Rejects ms (Timeout ms)
      | Never \<Rightarrow> Rejects ms (Timeout ms))"

subsection \<open>Cache entries, configuration and the store\<close>

record CacheEntry =
  data :: jsval
  timestamp :: int
  version :: string

definition CACHE_VERSION :: string where
  "CACHE_VERSION = ''1.0.0''"

record CacheConfig =
  ttl :: "int option"
  prefix :: "string option"
  timeout :: "nat option"

text \<open>The defaults of the destructuring \<^verbatim>\<open>{ ttl = 5 * 60 * 1000, prefix = "cache", timeout = 10000 }\<close>.\<close>

definition ttlOf :: "CacheConfig \<Rightarrow> int" where
  "ttlOf config = (case ttl config of None \<Rightarrow> 5 * 60 * 1000 | Some t \<Rightarrow> t)"

definition prefixOf :: "CacheConfig \<Rightarrow> string" where
  "prefixOf config = (case prefix config of None \<Rightarrow> ''cache'' | Some p \<Rightarrow> p)"

definition timeoutOf :: "CacheConfig \<Rightarrow> nat" where
  "timeoutOf config = (case timeout config of None \<Rightarrow> 10000 | Some t \<Rightarrow> t)"

definition cacheKey :: "string \<Rightarrow> string \<Rightarrow> string" where
  "cacheKey pfx key = pfx @ '':'' @ key"

type_synonym store = "string \<rightharpoonup> CacheEntry"

text \<open>How one call of the storage collaborator behaves: a parameter of the model.\<close>

datatype io =
    Completes nat   \<comment> \<open>succeeds after so many milliseconds\<close>
  | Errors nat   \<comment> \<open>rejects after so many milliseconds, the store unchanged\<close>
  | Stalls   \<comment> \<open>never settles, the store unchanged\<close>

text \<open>
  The module \<^verbatim>\<open>./storage\<close> that exports \<^verbatim>\<open>load\<close>, \<^verbatim>\<open>save\<close> and \<^verbatim>\<open>remove\<close> is not among
  the sources. What a call does to the store is taken from the external interfaces of the
  specification; whether and when it succeeds is the parameter \<open>io\<close>. The store returned by
  \<^verbatim>\<open>save\<close> and \<^verbatim>\<open>remove\<close> is the store once the operation has landed.
\<close>

text \<open>
  Modelled from the spec: \<^verbatim>\<open>load\<close> of \<^verbatim>\<open>./storage\<close> is missing; it "returns null/absent on
  missing key, rejects only on unexpected I/O failure".
\<close>

definition storage_load :: "store \<Rightarrow> io \<Rightarrow> string \<Rightarrow> CacheEntry option promise" where
  "storage_load st b k =
     (case b of
        Completes d \<Rightarrow> Resolves d (st k)
      | Errors d \<Rightarrow> Rejects d (Failure ''load'')
      | Stalls \<Rightarrow> Never)"

text \<open>
  Modelled from the spec: \<^verbatim>\<open>save\<close> of \<^verbatim>\<open>./storage\<close> is missing; it sets the value of the
  key.
\<close>

definition storage_save :: "store \<Rightarrow> io \<Rightarrow> string \<Rightarrow> CacheEntry \<Rightarrow> unit promise \<times> store" where
  "storage_save st b k e =
     (case b of
        Completes d \<Rightarrow> (Resolves d (), st(k \<mapsto> e))
      | Errors d \<Rightarrow> (Rejects d (Failure ''save''), st)
      | Stalls \<Rightarrow> (Never, st))"

text \<open>
  Modelled from the spec: \<^verbatim>\<open>remove\<close> of \<^verbatim>\<open>./storage\<close> is missing; it deletes the key, and
  a key that is not there is deleted as well as one that is.
\<close>

definition storage_remove :: "store \<Rightarrow> io \<Rightarrow> string \<Rightarrow> unit promise \<times> store" where
  "storage_remove st b k =
     (case b of
        Completes d \<Rightarrow> (Resolves d (), st(k := None))
      | Errors d \<Rightarrow> (Rejects d (Failure ''remove''), st)
      | Stalls \<Rightarrow> (Never, st))"

text \<open>
  The surroundings of one call: the clock when the call starts, the content of the store, and
  how the storage calls that the call may make behave.
\<close>

record env =
  clock :: int   \<comment> \<open>\<^verbatim>\<open>Date.now()\<close> when the call starts\<close>
  disk :: store
  initialRead :: io   \<comment> \<open>the \<^verbatim>\<open>load\<close> of the first \<^verbatim>\<open>try\<close> block of getCached\<close>
  fallbackRead :: io   \<comment> \<open>the \<^verbatim>\<open>load\<close> of the \<^verbatim>\<open>catch\<close> block of getCached\<close>
  writeIO :: io   \<comment> \<open>the \<^verbatim>\<open>save\<close> of getCached and of preCache\<close>
  removeIO :: "string \<Rightarrow> io"   \<comment> \<open>the \<^verbatim>\<open>remove\<close> of a cache key\<close>

text \<open>What a call does: how its promise settles, the store it leaves, the calls of fetchFn.\<close>

record 'a run =
  settled :: "'a promise"
  disk_after :: store
  fetchCalls :: nat

text \<open>
  getCached does not await its \<^verbatim>\<open>save\<close>: when its promise settles the store is still as
  the call found it, and the write is under way. Its run has one more field, the detached
  \<^verbatim>\<open>save\<close> if there is one: the promise of the \<^verbatim>\<open>save\<close>, created when getCached settles,
  and the store once the \<^verbatim>\<open>save\<close> has landed.
\<close>

record 'a getCached_run = "'a run" +
  detached :: "(unit promise \<times> store) option"

text \<open>
  The store found \<open>g\<close> milliseconds after getCached has settled, when nothing else touches
  it: that of the detached \<^verbatim>\<open>save\<close> if it has succeeded by then, and the one the call found
  otherwise.
\<close>

definition disk_later :: "'a getCached_run \<Rightarrow> nat \<Rightarrow> store" where
  "disk_later r g =
     (case detached r of
        None \<Rightarrow> disk_after r
      | Some (p, st) \<Rightarrow>
          (case p of
             Resolves dw u \<Rightarrow> if dw \<le> g then st else disk_after r
           | Rejects dw err \<Rightarrow> disk_after r
           | Never \<Rightarrow> disk_after r))"

subsection \<open>getCached\<close>

text \<open>
  The validity check,
  \<^verbatim>\<open>cached && cached.version === CACHE_VERSION && Date.now() - cached.timestamp < ttl\<close>.
\<close>

definition cacheValid :: "CacheEntry option \<Rightarrow> int \<Rightarrow> int \<Rightarrow> bool" where
  "cacheValid cached now t =
     (case cached of
        None \<Rightarrow> False
      | Some e \<Rightarrow> version e = CACHE_VERSION \<and> now - timestamp e < t)"

text \<open>
  The \<^verbatim>\<open>catch\<close> block of getCached, entered \<open>t\<close> milliseconds into the call: one more read
  bounded by 1000 ms, whose entry is returned if \<^verbatim>\<open>cached && cached.data\<close>; null otherwise,
  also when the read fails.
\<close>

definition staleFallback :: "string \<Rightarrow> env \<Rightarrow> nat \<Rightarrow> jsval getCached_run" where
  "staleFallback ck env t =
     (case withTimeout (storage_load (disk env) (fallbackRead env) ck) 1000 of
        Resolves t3 cached \<Rightarrow>
          (case cached of
             None \<Rightarrow>
               \<lparr>settled = Resolves (t + t3) Null, disk_after = disk env, fetchCalls = 1,
                detached = None\<rparr>
           | Some e \<Rightarrow>
               if truthy (data e)
               then \<lparr>settled = Resolves (t + t3) (data e), disk_after = disk env, fetchCalls = 1,
                     detached = None\<rparr>
               else \<lparr>settled = Resolves (t + t3) Null, disk_after = disk env, fetchCalls = 1,
                     detached = None\<rparr>)
      | Rejects t3 err \<Rightarrow>
          \<lparr>settled = Resolves (t + t3) Null, disk_after = disk env, fetchCalls = 1,
           detached = None\<rparr>
      | Never \<Rightarrow> \<lparr>settled = Never, disk_after = disk env, fetchCalls = 1, detached = None\<rparr>)"

text \<open>
  The miss path, entered \<open>t1\<close> milliseconds into the call: the fetch bounded by the timeout,
  the \<^verbatim>\<open>save\<close> of a truthy result, started and not awaited (its own failure dropped by
  \<^verbatim>\<open>.catch(() => {})\<close>), and the \<^verbatim>\<open>catch\<close> block when the bounded fetch rejects. A
  \<open>fetchFn\<close> that throws before it returns a promise is a promise rejected at once.
\<close>

definition fetchFresh :: "string \<Rightarrow> jsval promise \<Rightarrow> nat \<Rightarrow> env \<Rightarrow> nat \<Rightarrow> jsval getCached_run" where
  "fetchFresh ck fetchFn tmo env t1 =
     (case withTimeout fetchFn tmo of
        Resolves t2 freshData \<Rightarrow>
          \<lparr>settled = Resolves (t1 + t2) freshData,
           disk_after = disk env,
           fetchCalls = 1,
           detached =
             (if truthy freshData
              then Some (storage_save (disk env) (writeIO env) ck
                     \<lparr>data = freshData, timestamp = clock env + int (t1 + t2), version = CACHE_VERSION\<rparr>)
              else None)\<rparr>
      | Rejects t2 err \<Rightarrow> staleFallback ck env (t1 + t2)
      | Never \<Rightarrow> \<lparr>settled = Never, disk_after = disk env, fetchCalls = 1, detached = None\<rparr>)"

text \<open>
  After the first read, \<open>t1\<close> milliseconds into the call, with \<open>cached\<close> what it gave
  (null when it failed): the entry's data if it is valid, the miss path otherwise.
\<close>

definition afterRead :: "string \<Rightarrow> jsval promise \<Rightarrow> CacheConfig \<Rightarrow> env \<Rightarrow> nat \<Rightarrow> CacheEntry option \<Rightarrow> jsval getCached_run" where
  "afterRead key fetchFn config env t1 cached =
     (case cached of
        None \<Rightarrow> fetchFresh (cacheKey (prefixOf config) key) fetchFn (timeoutOf config) env t1
      | Some e \<Rightarrow>
          if cacheValid cached (clock env + int t1) (ttlOf config)
          then \<lparr>settled = Resolves t1 (data e), disk_after = disk env, fetchCalls = 0,
                detached = None\<rparr>
          else fetchFresh (cacheKey (prefixOf config) key) fetchFn (timeoutOf config) env t1)"

definition getCached :: "string \<Rightarrow> jsval promise \<Rightarrow> CacheConfig \<Rightarrow> env \<Rightarrow> jsval getCached_run" where
  "getCached key fetchFn config env =
     (case withTimeout (storage_load (disk env) (initialRead env) (cacheKey (prefixOf config) key)) 2000 of
        Resolves t1 cached \<Rightarrow> afterRead key fetchFn config env t1 cached
      | Rejects t1 err \<Rightarrow> afterRead key fetchFn config env t1 None
      | Never \<Rightarrow> \<lparr>settled = Never, disk_after = disk env, fetchCalls = 0, detached = None\<rparr>)"

subsection \<open>invalidateCache, invalidateCaches\<close>

text \<open>\<^verbatim>\<open>await remove(cacheKey)\<close>, with no handler around it.\<close>

definition invalidateCache :: "string \<Rightarrow> string \<Rightarrow> env \<Rightarrow> unit run" where
  "invalidateCache key pfx env =
     (case storage_remove (disk env) (removeIO env (cacheKey pfx key)) (cacheKey pfx key) of
        (p, st) \<Rightarrow> \<lparr>settled = p, disk_after = st, fetchCalls = 0\<rparr>)"

text \<open>
  \<^verbatim>\<open>Promise.all\<close>: rejected as soon as one of the promises is rejected (the earliest one, the
  first of the list among equals), fulfilled once all are fulfilled, and pending for ever
  when none is rejected and one never settles.
\<close>

fun Promise_all :: "'a promise list \<Rightarrow> 'a list promise" where
  "Promise_all [] = Resolves 0 []"
| "Promise_all (p # ps) =
     (case p of
        Resolves t v \<Rightarrow>
          (case Promise_all ps of
             Resolves t' vs \<Rightarrow> Resolves (max t t') (v # vs)
           | Rejects t' e' \<Rightarrow> Rejects t' e'
           | Never \<Rightarrow> Never)
      | Rejects t e \<Rightarrow>
          (case Promise_all ps of
             Resolves t' vs \<Rightarrow> Rejects t e
           | Rejects t' e' \<Rightarrow> if t' < t then Rejects t' e' else Rejects t e
           | Never \<Rightarrow> Rejects t e)
      | Never \<Rightarrow>
          (case Promise_all ps of
             Resolves t' vs \<Rightarrow> Never
           | Rejects t' e' \<Rightarrow> Rejects t' e'
           | Never \<Rightarrow> Never))"

text \<open>
  \<^verbatim>\<open>keys.map((key) => invalidateCache(key, prefix))\<close>: every call is started, one after the
  other, each on the store the earlier ones leave; the promises are collected. No call is
  cancelled when another fails, so the store that is left has every deletion that succeeds.
\<close>

fun startInvalidations :: "string list \<Rightarrow> string \<Rightarrow> env \<Rightarrow> unit promise list \<times> store" where
  "startInvalidations [] pfx env = ([], disk env)"
| "startInvalidations (key # keys) pfx env =
     (let r = invalidateCache key pfx env;
          rest = startInvalidations keys pfx (env\<lparr>disk := disk_after r\<rparr>)
      in (settled r # fst rest, snd rest))"

definition invalidateCaches :: "string list \<Rightarrow> string \<Rightarrow> env \<Rightarrow> unit run" where
  "invalidateCaches keys pfx env =
     (let started = startInvalidations keys pfx env
      in \<lparr>settled =
            (case Promise_all (fst started) of
               Resolves t vs \<Rightarrow> Resolves t ()
             | Rejects t e \<Rightarrow> Rejects t e
             | Never \<Rightarrow> Never),
          disk_after = snd started,
          fetchCalls = 0\<rparr>)"

subsection \<open>preCache\<close>

text \<open>
  \<^verbatim>\<open>await fetchFn()\<close> with no timer, then \<^verbatim>\<open>await save(...)\<close> of a truthy result, both inside
  one \<^verbatim>\<open>try\<close> whose \<^verbatim>\<open>catch\<close> only logs.
\<close>

definition preCache :: "string \<Rightarrow> jsval promise \<Rightarrow> CacheConfig \<Rightarrow> env \<Rightarrow> unit run" where
  "preCache key fetchFn config env =
     (case fetchFn of
        Resolves t d \<Rightarrow>
          if truthy d
          then
            (case storage_save (disk env) (writeIO env) (cacheKey (prefixOf config) key)
                    \<lparr>data = d, timestamp = clock env + int t, version = CACHE_VERSION\<rparr> of
               (Resolves t2 u, st) \<Rightarrow> \<lparr>settled = Resolves (t + t2) (), disk_after = st, fetchCalls = 1\<rparr>
             | (Rejects t2 err, st) \<Rightarrow> \<lparr>settled = Resolves (t + t2) (), disk_after = st, fetchCalls = 1\<rparr>
             | (Never, st) \<Rightarrow> \<lparr>settled = Never, disk_after = st, fetchCalls = 1\<rparr>)
          else \<lparr>settled = Resolves t (), disk_after = disk env, fetchCalls = 1\<rparr>
      | Rejects t err \<Rightarrow> \<lparr>settled = Resolves t (), disk_after = disk env, fetchCalls = 1\<rparr>
      | Never \<Rightarrow> \<lparr>settled = Never, disk_after = disk env, fetchCalls = 1\<rparr>)"

subsection \<open>Concrete surroundings\<close>

text \<open>The configuration \<^verbatim>\<open>{}\<close>, a list of products, and a counter that may be zero.\<close>

definition noConfig :: CacheConfig where
  "noConfig = \<lparr>ttl = None, prefix = None, timeout = None\<rparr>"

definition products :: jsval where
  "products = Arr [Obj [(''id'', Num 1)]]"

definition savedProducts :: "int \<Rightarrow> string \<Rightarrow> CacheEntry" where
  "savedProducts ts ver = \<lparr>data = products, timestamp = ts, version = ver\<rparr>"

definition savedZero :: "int \<Rightarrow> CacheEntry" where
  "savedZero ts = \<lparr>data = Num 0, timestamp = ts, version = CACHE_VERSION\<rparr>"

text \<open>A store that answers every call after 20 ms.\<close>

definition quickStore :: "int \<Rightarrow> store \<Rightarrow> env" where
  "quickStore now st =
     \<lparr>clock = now, disk = st, initialRead = Completes 20, fallbackRead = Completes 20,
      writeIO = Completes 20, removeIO = (\<lambda>k. Completes 20)\<rparr>"

text \<open>The same store, except that deleting \<^verbatim>\<open>cache:k1\<close> fails after 5 ms.\<close>

definition brokenRemove :: "int \<Rightarrow> store \<Rightarrow> env" where
  "brokenRemove now st =
     \<lparr>clock = now, disk = st, initialRead = Completes 20, fallbackRead = Completes 20,
      writeIO = Completes 20,
      removeIO = (\<lambda>k. if k = ''cache:k1'' then Errors 5 else Completes 20)\<rparr>"

text \<open>A store whose first read takes 2500 ms, longer than its bound.\<close>

definition slowRead :: "int \<Rightarrow> store \<Rightarrow> env" where
  "slowRead now st = (quickStore now st)\<lparr>initialRead := Completes 2500\<rparr>"

definition twoEntries :: store where
  "twoEntries = [''cache:k1'' \<mapsto> savedProducts 0 CACHE_VERSION, ''cache:k2'' \<mapsto> savedZero 0]"

section \<open>Properties\<close>

subsection \<open>Auxiliary facts\<close>

lemmas run_defs = getCached_def afterRead_def fetchFresh_def staleFallback_def cacheValid_def
  disk_later_def storage_load_def storage_save_def storage_remove_def withTimeout_def
  ttlOf_def prefixOf_def timeoutOf_def cacheKey_def CACHE_VERSION_def

lemmas example_defs = noConfig_def products_def savedProducts_def savedZero_def quickStore_def
  brokenRemove_def slowRead_def twoEntries_def

lemma withTimeout_Resolves_le: "withTimeout p ms = Resolves t v \<Longrightarrow> t \<le> ms"
  by (cases p) (auto simp: withTimeout_def split: if_splits)

lemma withTimeout_Rejects_le: "withTimeout p ms = Rejects t e \<Longrightarrow> t \<le> ms"
  by (cases p) (auto simp: withTimeout_def split: if_splits)

lemma withTimeout_not_Never: "withTimeout p ms \<noteq> Never"
  by (cases p) (auto simp: withTimeout_def)

lemma staleFallback_settles:
  "\<exists>t' v. settled (staleFallback ck env t) = Resolves t' v \<and> t' \<le> t + 1000"
proof (cases "withTimeout (storage_load (disk env) (fallbackRead env) ck) 1000")
  case (Resolves t3 cached)
  then have "t3 \<le> 1000" by (rule withTimeout_Resolves_le)
  with Resolves show ?thesis
    by (cases cached) (simp_all add: staleFallback_def)
next
  case (Rejects t3 err)
  then have "t3 \<le> 1000" by (rule withTimeout_Rejects_le)
  with Rejects show ?thesis by (simp add: staleFallback_def)
next
  case Never
  then show ?thesis by (simp add: withTimeout_not_Never)
qed

lemma fetchFresh_settles:
  "\<exists>t' v. settled (fetchFresh ck fetchFn tmo env t1) = Resolves t' v \<and> t' \<le> t1 + tmo + 1000"
proof (cases "withTimeout fetchFn tmo")
  case (Resolves t2 v)
  then have "t2 \<le> tmo" by (rule withTimeout_Resolves_le)
  with Resolves show ?thesis by (simp add: fetchFresh_def)
next
  case (Rejects t2 err)
  then have le: "t2 \<le> tmo" by (rule withTimeout_Rejects_le)
  obtain t' v where "settled (staleFallback ck env (t1 + t2)) = Resolves t' v" "t' \<le> t1 + t2 + 1000"
    using staleFallback_settles by blast
  with Rejects le show ?thesis by (simp add: fetchFresh_def)
next
  case Never
  then show ?thesis by (simp add: withTimeout_not_Never)
qed

lemma fetchFresh_fetchCalls: "fetchCalls (fetchFresh ck fetchFn tmo env t1) = 1"
proof (cases "withTimeout fetchFn tmo")
  case (Resolves t2 v)
  then show ?thesis by (simp add: fetchFresh_def)
next
  case (Rejects t2 err)
  have "fetchCalls (staleFallback ck env (t1 + t2)) = 1"
    by (simp add: staleFallback_def split: promise.splits option.splits)
  with Rejects show ?thesis by (simp add: fetchFresh_def)
next
  case Never
  then show ?thesis by (simp add: fetchFresh_def)
qed

lemma afterRead_settles:
  "\<exists>t' v. settled (afterRead key fetchFn config env t1 cached) = Resolves t' v
     \<and> t' \<le> t1 + timeoutOf config + 1000"
  using fetchFresh_settles [of "cacheKey (prefixOf config) key" fetchFn "timeoutOf config" env t1]
  by (cases cached) (auto simp: afterRead_def)

lemma getCached_settles:
  "\<exists>t v. settled (getCached key fetchFn config env) = Resolves t v
     \<and> t \<le> 2000 + timeoutOf config + 1000"
proof (cases "withTimeout (storage_load (disk env) (initialRead env) (cacheKey (prefixOf config) key)) 2000")
  case (Resolves t1 cached)
  then have le: "t1 \<le> 2000" by (rule withTimeout_Resolves_le)
  obtain t v where "settled (afterRead key fetchFn config env t1 cached) = Resolves t v"
      "t \<le> t1 + timeoutOf config + 1000"
    using afterRead_settles by blast
  with Resolves le show ?thesis by (simp add: getCached_def)
next
  case (Rejects t1 err)
  then have le: "t1 \<le> 2000" by (rule withTimeout_Rejects_le)
  obtain t v where "settled (afterRead key fetchFn config env t1 None) = Resolves t v"
      "t \<le> t1 + timeoutOf config + 1000"
    using afterRead_settles by blast
  with Rejects le show ?thesis by (simp add: getCached_def)
next
  case Never
  then show ?thesis by (simp add: withTimeout_not_Never)
qed

text \<open>An entry that is not valid now is not valid later: its age only grows.\<close>

lemma cacheValid_later:
  assumes "\<not> cacheValid cached now t" and "now \<le> now'"
  shows "\<not> cacheValid cached now' t"
  using assms by (cases cached) (auto simp: cacheValid_def)

text \<open>With no valid entry in the store the call takes the miss path, whatever the read does.\<close>

lemma getCached_miss:
  assumes "\<not> cacheValid (disk env (cacheKey (prefixOf config) key)) (clock env) (ttlOf config)"
  shows "\<exists>t1. getCached key fetchFn config env
           = fetchFresh (cacheKey (prefixOf config) key) fetchFn (timeoutOf config) env t1"
proof (cases "initialRead env")
  case (Completes d)
  have inv: "\<not> cacheValid (disk env (cacheKey (prefixOf config) key)) (clock env + int d) (ttlOf config)"
    using assms by (rule cacheValid_later) simp
  show ?thesis
  proof (cases "d \<le> 2000")
    case True
    with Completes inv show ?thesis
      by (cases "disk env (cacheKey (prefixOf config) key)")
         (auto simp: getCached_def storage_load_def withTimeout_def afterRead_def)
  next
    case False
    with Completes show ?thesis
      by (auto simp: getCached_def storage_load_def withTimeout_def afterRead_def)
  qed
next
  case (Errors d)
  then show ?thesis
    by (auto simp: getCached_def storage_load_def withTimeout_def afterRead_def)
next
  case Stalls
  then show ?thesis
    by (auto simp: getCached_def storage_load_def withTimeout_def afterRead_def)
qed

text \<open>A call either returns the valid entry that its bounded read gave, or takes the miss path.\<close>

lemma getCached_hit_or_miss:
  "(\<exists>t1 e. withTimeout (storage_load (disk env) (initialRead env) (cacheKey (prefixOf config) key)) 2000
              = Resolves t1 (Some e)
      \<and> cacheValid (Some e) (clock env + int t1) (ttlOf config)
      \<and> getCached key fetchFn config env
          = \<lparr>settled = Resolves t1 (data e), disk_after = disk env, fetchCalls = 0,
             detached = None\<rparr>)
   \<or> (\<exists>t1. getCached key fetchFn config env
          = fetchFresh (cacheKey (prefixOf config) key) fetchFn (timeoutOf config) env t1)"
proof (cases "withTimeout (storage_load (disk env) (initialRead env) (cacheKey (prefixOf config) key)) 2000")
  case (Resolves t1 cached)
  then show ?thesis
    by (cases cached) (auto simp: getCached_def afterRead_def)
next
  case (Rejects t1 err)
  then show ?thesis by (auto simp: getCached_def afterRead_def)
next
  case Never
  then show ?thesis by (simp add: withTimeout_not_Never)
qed

text \<open>A call that invokes fetchFn has taken the miss path.\<close>

lemma getCached_miss_run:
  assumes "fetchCalls (getCached key fetchFn config env) = 1"
  shows "\<exists>t1. getCached key fetchFn config env
           = fetchFresh (cacheKey (prefixOf config) key) fetchFn (timeoutOf config) env t1"
  using getCached_hit_or_miss [of env config key fetchFn] assms by auto

text \<open>A call that misses after its read has answered in time found no valid entry.\<close>

lemma getCached_miss_read:
  assumes "fetchCalls (getCached key fetchFn config env) = 1"
    and "initialRead env = Completes d" and "d \<le> 2000"
  shows "\<not> cacheValid (disk env (cacheKey (prefixOf config) key)) (clock env + int d) (ttlOf config)"
proof
  assume v: "cacheValid (disk env (cacheKey (prefixOf config) key)) (clock env + int d) (ttlOf config)"
  then obtain e where "disk env (cacheKey (prefixOf config) key) = Some e"
    by (cases "disk env (cacheKey (prefixOf config) key)") (auto simp: cacheValid_def)
  with v assms(2,3) have "fetchCalls (getCached key fetchFn config env) = 0"
    by (simp add: getCached_def storage_load_def withTimeout_def afterRead_def)
  with assms(1) show False by simp
qed

text \<open>The invalidation of one key, and the list of invalidations.\<close>

lemma invalidateCache_settled_Rejects:
  "(\<exists>t e. settled (invalidateCache key pfx env) = Rejects t e)
     \<longleftrightarrow> (\<exists>d. removeIO env (cacheKey pfx key) = Errors d)"
  by (cases "removeIO env (cacheKey pfx key)")
     (simp_all add: invalidateCache_def storage_remove_def)

lemma invalidateCache_settled_Resolves:
  "(\<exists>t v. settled (invalidateCache key pfx env) = Resolves t v)
     \<longleftrightarrow> (\<exists>d. removeIO env (cacheKey pfx key) = Completes d)"
  by (cases "removeIO env (cacheKey pfx key)")
     (simp_all add: invalidateCache_def storage_remove_def)

lemma invalidateCache_settled_disk:
  "settled (invalidateCache key pfx (env\<lparr>disk := st\<rparr>)) = settled (invalidateCache key pfx env)"
  by (cases "removeIO env (cacheKey pfx key)")
     (simp_all add: invalidateCache_def storage_remove_def)

lemma invalidateCache_disk:
  "disk_after (invalidateCache key pfx env) ck
     = (if ck = cacheKey pfx key \<and> (\<exists>d. removeIO env ck = Completes d) then None else disk env ck)"
  by (cases "removeIO env (cacheKey pfx key)")
     (auto simp: invalidateCache_def storage_remove_def)

lemma startInvalidations_promises:
  "fst (startInvalidations keys pfx env) = map (\<lambda>k. settled (invalidateCache k pfx env)) keys"
proof (induction keys arbitrary: env)
  case Nil
  show ?case by simp
next
  case (Cons key keys)
  have "map (\<lambda>k. settled (invalidateCache k pfx (env\<lparr>disk := disk_after (invalidateCache key pfx env)\<rparr>))) keys
      = map (\<lambda>k. settled (invalidateCache k pfx env)) keys"
    by (simp add: invalidateCache_settled_disk)
  with Cons show ?case by (simp add: Let_def)
qed

lemma startInvalidations_disk:
  "snd (startInvalidations keys pfx env) ck
     = (if (\<exists>k\<in>set keys. ck = cacheKey pfx k) \<and> (\<exists>d. removeIO env ck = Completes d)
        then None else disk env ck)"
  by (induction keys arbitrary: env) (auto simp: Let_def invalidateCache_disk)

lemma Promise_all_Rejects:
  "(\<exists>t e. Promise_all ps = Rejects t e) \<longleftrightarrow> (\<exists>p\<in>set ps. \<exists>t e. p = Rejects t e)"
proof (induction ps)
  case Nil
  then show ?case by simp
next
  case (Cons p ps)
  show ?case
  proof (cases p)
    case (Resolves t v)
    with Cons show ?thesis by (cases "Promise_all ps") auto
  next
    case (Rejects t e)
    then show ?thesis by (cases "Promise_all ps") auto
  next
    case Never
    with Cons show ?thesis by (cases "Promise_all ps") auto
  qed
qed

lemma Promise_all_Resolves:
  "(\<exists>t vs. Promise_all ps = Resolves t vs) \<longleftrightarrow> (\<forall>p\<in>set ps. \<exists>t v. p = Resolves t v)"
proof (induction ps)
  case Nil
  then show ?case by simp
next
  case (Cons p ps)
  show ?case
  proof (cases p)
    case (Resolves t v)
    with Cons show ?thesis by (cases "Promise_all ps") auto
  next
    case (Rejects t e)
    then show ?thesis by (cases "Promise_all ps") auto
  next
    case Never
    then show ?thesis by (cases "Promise_all ps") auto
  qed
qed

subsection \<open>C1\<close>

text \<open>
  C1 (cache hit skips the fetch), as the code has it. When the first read, bounded by 2000 ms,
  gives the stored entry of \<^verbatim>\<open>prefix:key\<close>, and that entry is valid when it is checked (its
  version is \<open>CACHE_VERSION\<close>, and \<^verbatim>\<open>Date.now()\<close> at the check, which is the clock at the
  start of the call plus the milliseconds of the read, minus its timestamp is below the ttl),
  then getCached fulfils with the data of the entry, fetchFn is not invoked and nothing is
  written. When the first read fails or does not answer within 2000 ms, the stored entry is
  not looked at and fetchFn is invoked.
\<close>

theorem getCached_hit_skips_fetch:
  "(initialRead env = Completes d \<and> d \<le> 2000
      \<and> disk env (cacheKey (prefixOf config) key) = Some e
      \<and> version e = CACHE_VERSION
      \<and> clock env + int d - timestamp e < ttlOf config
    \<longrightarrow> getCached key fetchFn config env
          = \<lparr>settled = Resolves d (data e), disk_after = disk env, fetchCalls = 0,
             detached = None\<rparr>)
   \<and> ((\<forall>d'. initialRead env = Completes d' \<longrightarrow> 2000 < d')
    \<longrightarrow> fetchCalls (getCached key fetchFn config env) = 1)"
proof (intro conjI impI)
  assume "initialRead env = Completes d \<and> d \<le> 2000
      \<and> disk env (cacheKey (prefixOf config) key) = Some e
      \<and> version e = CACHE_VERSION
      \<and> clock env + int d - timestamp e < ttlOf config"
  then show "getCached key fetchFn config env
      = \<lparr>settled = Resolves d (data e), disk_after = disk env, fetchCalls = 0, detached = None\<rparr>"
    by (simp add: getCached_def storage_load_def withTimeout_def afterRead_def cacheValid_def)
next
  assume slow: "\<forall>d'. initialRead env = Completes d' \<longrightarrow> 2000 < d'"
  have "getCached key fetchFn config env
      = afterRead key fetchFn config env 2000 None
    \<or> (\<exists>d'. getCached key fetchFn config env = afterRead key fetchFn config env d' None)"
    using slow
    by (cases "initialRead env")
       (auto simp: getCached_def storage_load_def withTimeout_def)
  then show "fetchCalls (getCached key fetchFn config env) = 1"
    by (auto simp: afterRead_def fetchFresh_fetchCalls)
qed

text \<open>
  The claim for every stored valid entry fails: the store holds an entry of the current
  version written 10 s ago, valid at the start of the call and 2000 ms later, and the first
  read takes 2500 ms. The read is given up after 2000 ms, fetchFn is invoked, and getCached
  returns the 7 that it gives, not the data of the entry.
\<close>

theorem getCached_hit_skips_fetch_counterexample:
  "disk (slowRead 1700000010000 [''cache:products'' \<mapsto> savedProducts 1700000000000 CACHE_VERSION])
       (cacheKey (prefixOf noConfig) ''products'')
     = Some (savedProducts 1700000000000 CACHE_VERSION)
   \<and> version (savedProducts 1700000000000 CACHE_VERSION) = CACHE_VERSION
   \<and> 1700000010000 - timestamp (savedProducts 1700000000000 CACHE_VERSION) < ttlOf noConfig
   \<and> 1700000010000 + 2000 - timestamp (savedProducts 1700000000000 CACHE_VERSION) < ttlOf noConfig
   \<and> settled (getCached ''products'' (Resolves 50 (Num 7)) noConfig
        (slowRead 1700000010000 [''cache:products'' \<mapsto> savedProducts 1700000000000 CACHE_VERSION]))
     = Resolves 2050 (Num 7)
   \<and> fetchCalls (getCached ''products'' (Resolves 50 (Num 7)) noConfig
        (slowRead 1700000010000 [''cache:products'' \<mapsto> savedProducts 1700000000000 CACHE_VERSION]))
     = 1
   \<and> data (savedProducts 1700000000000 CACHE_VERSION) \<noteq> Num 7"
  by (simp add: run_defs example_defs)

text \<open>
  The example of the specification: the default ttl of 300000 ms, an entry written 10 s ago
  with the current version, and a fetchFn that would never settle. And a store whose first
  read takes 2500 ms: fetchFn is invoked.
\<close>

theorem getCached_hit_skips_fetch_witness:
  "initialRead (quickStore 1700000010000 [''cache:products'' \<mapsto> savedProducts 1700000000000 CACHE_VERSION])
     = Completes 20
   \<and> (20::nat) \<le> 2000
   \<and> disk (quickStore 1700000010000 [''cache:products'' \<mapsto> savedProducts 1700000000000 CACHE_VERSION])
       (cacheKey (prefixOf noConfig) ''products'')
     = Some (savedProducts 1700000000000 CACHE_VERSION)
   \<and> version (savedProducts 1700000000000 CACHE_VERSION) = CACHE_VERSION
   \<and> clock (quickStore 1700000010000 [''cache:products'' \<mapsto> savedProducts 1700000000000 CACHE_VERSION])
       + int 20 - timestamp (savedProducts 1700000000000 CACHE_VERSION) < ttlOf noConfig
   \<and> getCached ''products'' Never noConfig
       (quickStore 1700000010000 [''cache:products'' \<mapsto> savedProducts 1700000000000 CACHE_VERSION])
     = \<lparr>settled = Resolves 20 products,
        disk_after = [''cache:products'' \<mapsto> savedProducts 1700000000000 CACHE_VERSION],
        fetchCalls = 0, detached = None\<rparr>
   \<and> initialRead (slowRead 1700000010000 Map.empty) = Completes 2500
   \<and> (2000::nat) < 2500
   \<and> fetchCalls (getCached ''products'' Never noConfig (slowRead 1700000010000 Map.empty)) = 1"
  using getCached_hit_skips_fetch
    [of "quickStore 1700000010000 [''cache:products'' \<mapsto> savedProducts 1700000000000 CACHE_VERSION]"
        20 noConfig "''products''" "savedProducts 1700000000000 CACHE_VERSION" Never]
    getCached_hit_skips_fetch
    [of "slowRead 1700000010000 Map.empty" 0 noConfig "''products''"
        "savedProducts 0 CACHE_VERSION" Never]
  by (simp add: quickStore_def slowRead_def noConfig_def prefixOf_def ttlOf_def cacheKey_def
        savedProducts_def)

subsection \<open>C2\<close>

text \<open>
  C2 (total failure degrades to null). For every key, fetchFn, configuration, clock, store
  and behaviour of the storage calls, the promise of getCached is fulfilled: it is never
  rejected and never left pending. In particular, when the store has no entry for
  \<^verbatim>\<open>prefix:key\<close> and the fetch bounded by the timeout fails (fetchFn rejects, or does not
  settle in time), it is fulfilled with null.
\<close>

theorem getCached_never_rejects:
  "(\<exists>t v. settled (getCached key fetchFn config env) = Resolves t v)
   \<and> (disk env (cacheKey (prefixOf config) key) = None
        \<and> (\<exists>t2 err. withTimeout fetchFn (timeoutOf config) = Rejects t2 err)
      \<longrightarrow> (\<exists>t. settled (getCached key fetchFn config env) = Resolves t Null))"
proof (intro conjI impI)
  show "\<exists>t v. settled (getCached key fetchFn config env) = Resolves t v"
    using getCached_settles [of key fetchFn config env] by blast
next
  assume a: "disk env (cacheKey (prefixOf config) key) = None
        \<and> (\<exists>t2 err. withTimeout fetchFn (timeoutOf config) = Rejects t2 err)"
  let ?ck = "cacheKey (prefixOf config) key"
  from a obtain t2 err where rej: "withTimeout fetchFn (timeoutOf config) = Rejects t2 err"
    by blast
  from a have "\<not> cacheValid (disk env ?ck) (clock env) (ttlOf config)"
    by (simp add: cacheValid_def)
  then obtain t1 where g: "getCached key fetchFn config env
      = fetchFresh ?ck fetchFn (timeoutOf config) env t1"
    using getCached_miss by blast
  have fb: "\<exists>t. settled (staleFallback ?ck env (t1 + t2)) = Resolves t Null"
  proof (cases "withTimeout (storage_load (disk env) (fallbackRead env) ?ck) 1000")
    case (Resolves t3 cached)
    moreover from this a have "cached = None"
      by (cases "fallbackRead env") (auto simp: storage_load_def withTimeout_def split: if_splits)
    ultimately show ?thesis by (simp add: staleFallback_def)
  next
    case (Rejects t3 e3)
    then show ?thesis by (simp add: staleFallback_def)
  next
    case Never
    then show ?thesis by (simp add: withTimeout_not_Never)
  qed
  from g rej fb show "\<exists>t. settled (getCached key fetchFn config env) = Resolves t Null"
    by (simp add: fetchFresh_def)
qed

text \<open>
  An empty store and a fetchFn that rejects after 50 ms.
\<close>

theorem getCached_never_rejects_witness:
  "disk (quickStore 0 Map.empty) (cacheKey (prefixOf noConfig) ''products'') = None
   \<and> withTimeout (Rejects 50 (Failure ''offline'')) (timeoutOf noConfig)
       = Rejects 50 (Failure ''offline'')
   \<and> (\<exists>t. settled (getCached ''products'' (Rejects 50 (Failure ''offline'')) noConfig
                     (quickStore 0 Map.empty)) = Resolves t Null)"
  using getCached_never_rejects
    [of "''products''" "Rejects 50 (Failure ''offline'')" noConfig "quickStore 0 Map.empty"]
  by (simp add: quickStore_def noConfig_def timeoutOf_def withTimeout_def)

subsection \<open>C3\<close>

text \<open>
  C3 (stale fallback), as the code has it. When the fetch bounded by the timeout fails and
  the fallback read, bounded by 1000 ms, gives a stored entry of \<^verbatim>\<open>prefix:key\<close> whose data is
  truthy, then getCached fulfils with the data of that entry, whatever its age and its
  version. The condition of the \<^verbatim>\<open>catch\<close> block is \<^verbatim>\<open>cached && cached.data\<close>: an entry
  whose data is falsy is not a fallback.
\<close>

theorem getCached_stale_fallback:
  assumes "withTimeout fetchFn (timeoutOf config) = Rejects t2 err"
    and "fallbackRead env = Completes d3" and "d3 \<le> 1000"
    and "disk env (cacheKey (prefixOf config) key) = Some e"
    and "truthy (data e)"
  shows "\<exists>t. settled (getCached key fetchFn config env) = Resolves t (data e)"
proof -
  let ?ck = "cacheKey (prefixOf config) key"
  have fb: "\<And>t. settled (staleFallback ?ck env t) = Resolves (t + d3) (data e)"
    using assms by (simp add: staleFallback_def storage_load_def withTimeout_def)
  have ff: "\<And>t1. settled (fetchFresh ?ck fetchFn (timeoutOf config) env t1)
      = Resolves (t1 + t2 + d3) (data e)"
    using assms(1) fb by (simp add: fetchFresh_def)
  from getCached_hit_or_miss [of env config key fetchFn] show ?thesis
  proof (elim disjE exE conjE)
    fix t1 e'
    assume r: "withTimeout (storage_load (disk env) (initialRead env) ?ck) 2000 = Resolves t1 (Some e')"
      and g: "getCached key fetchFn config env
          = \<lparr>settled = Resolves t1 (data e'), disk_after = disk env, fetchCalls = 0,
             detached = None\<rparr>"
    from r assms(4) have "e' = e"
      by (cases "initialRead env") (auto simp: storage_load_def withTimeout_def split: if_splits)
    with g show ?thesis by simp
  next
    fix t1
    assume "getCached key fetchFn config env = fetchFresh ?ck fetchFn (timeoutOf config) env t1"
    with ff show ?thesis by simp
  qed
qed

text \<open>
  The claim without the condition on the data fails: the store holds an expired entry whose
  data is the number 0, every read succeeds, fetchFn rejects, and getCached gives null, not
  the 0 of the entry.
\<close>

theorem getCached_stale_fallback_counterexample:
  "disk (quickStore 400000 [''cache:count'' \<mapsto> savedZero 0]) (cacheKey (prefixOf noConfig) ''count'')
     = Some (savedZero 0)
   \<and> withTimeout (Rejects 50 (Failure ''offline'')) (timeoutOf noConfig)
       = Rejects 50 (Failure ''offline'')
   \<and> settled (getCached ''count'' (Rejects 50 (Failure ''offline'')) noConfig
        (quickStore 400000 [''cache:count'' \<mapsto> savedZero 0])) = Resolves 90 Null
   \<and> data (savedZero 0) \<noteq> Null"
  by (simp add: run_defs example_defs)

text \<open>
  An entry of an older version, and a fetchFn that never settles: after the 10000 ms of the
  default timeout the old products are returned.
\<close>

theorem getCached_stale_fallback_witness:
  "withTimeout Never (timeoutOf noConfig) = Rejects 10000 (Timeout 10000)
   \<and> fallbackRead (quickStore 1700000000000 [''cache:products'' \<mapsto> savedProducts 0 ''0.9.0''])
       = Completes 20
   \<and> (20::nat) \<le> 1000
   \<and> disk (quickStore 1700000000000 [''cache:products'' \<mapsto> savedProducts 0 ''0.9.0''])
        (cacheKey (prefixOf noConfig) ''products'') = Some (savedProducts 0 ''0.9.0'')
   \<and> truthy (data (savedProducts 0 ''0.9.0''))
   \<and> (\<exists>t. settled (getCached ''products'' Never noConfig
           (quickStore 1700000000000 [''cache:products'' \<mapsto> savedProducts 0 ''0.9.0'']))
         = Resolves t products)"
  using getCached_stale_fallback
    [of Never noConfig 10000 "Timeout 10000"
        "quickStore 1700000000000 [''cache:products'' \<mapsto> savedProducts 0 ''0.9.0'']"
        20 "''products''" "savedProducts 0 ''0.9.0''"]
  by (simp add: example_defs withTimeout_def timeoutOf_def prefixOf_def cacheKey_def)

subsection \<open>C4\<close>

text \<open>
  C4 (a fetched value is served from the cache next), as the code has it. When a call of
  getCached misses, that is, invokes fetchFn, and the bounded fetch fulfils with \<open>v\<close>, the
  call returns \<open>v\<close>, and the store is as it was when the call returns: the \<^verbatim>\<open>save\<close> is not
  awaited. When moreover \<open>v\<close> is truthy and the \<^verbatim>\<open>save\<close> succeeds after \<open>dw\<close>
  milliseconds, then from \<open>dw\<close> milliseconds after the return the store holds
  \<^verbatim>\<open>{data: v, timestamp: now, version: CACHE_VERSION}\<close> under \<^verbatim>\<open>prefix:key\<close>, where \<open>now\<close> is
  the clock when the call returns; and a call with the same key and configuration that starts
  \<open>g \<ge> dw\<close> milliseconds after the return, whose read gives that entry while its age is below
  the ttl, returns \<open>v\<close> and does not invoke fetchFn. Earlier than \<open>dw\<close> milliseconds after the
  return the store is as it was.
\<close>

theorem getCached_fetch_then_hit:
  assumes miss: "fetchCalls (getCached key fetchFn config env) = 1"
    and fetched: "withTimeout fetchFn (timeoutOf config) = Resolves t2 v"
    and returned: "settled (getCached key fetchFn config env) = Resolves t w"
  shows "w = v
    \<and> disk_after (getCached key fetchFn config env) = disk env
    \<and> (truthy v \<and> writeIO env = Completes dw \<and> dw \<le> g \<longrightarrow>
         disk_later (getCached key fetchFn config env) g
           = (disk env)(cacheKey (prefixOf config) key \<mapsto>
               \<lparr>data = v, timestamp = clock env + int t, version = CACHE_VERSION\<rparr>))
    \<and> (truthy v \<and> writeIO env = Completes dw \<and> dw \<le> g
         \<and> disk env2 = disk_later (getCached key fetchFn config env) g
         \<and> clock env2 = clock env + int t + int g
         \<and> initialRead env2 = Completes d2 \<and> d2 \<le> 2000
         \<and> int g + int d2 < ttlOf config \<longrightarrow>
         getCached key fetchFn' config env2
           = \<lparr>settled = Resolves d2 v, disk_after = disk env2, fetchCalls = 0, detached = None\<rparr>)
    \<and> (writeIO env = Completes dw \<and> g < dw \<longrightarrow>
         disk_later (getCached key fetchFn config env) g = disk env)"
proof -
  let ?ck = "cacheKey (prefixOf config) key"
  let ?e = "\<lparr>data = v, timestamp = clock env + int t, version = CACHE_VERSION\<rparr>"
  let ?r = "getCached key fetchFn config env"
  obtain t1 where g: "?r = fetchFresh ?ck fetchFn (timeoutOf config) env t1"
    using getCached_miss_run [OF miss] by blast
  have r: "fetchFresh ?ck fetchFn (timeoutOf config) env t1
      = \<lparr>settled = Resolves (t1 + t2) v, disk_after = disk env, fetchCalls = 1,
         detached =
           (if truthy v
            then Some (storage_save (disk env) (writeIO env) ?ck
                   \<lparr>data = v, timestamp = clock env + int (t1 + t2), version = CACHE_VERSION\<rparr>)
            else None)\<rparr>"
    using fetched by (simp add: fetchFresh_def)
  from g r returned have tw: "t = t1 + t2" "w = v" by simp_all
  have frame: "disk_after ?r = disk env" using g r by simp
  have landed: "disk_later ?r g = (disk env)(?ck \<mapsto> ?e)"
    if "truthy v" "writeIO env = Completes dw" "dw \<le> g"
    using that g r tw by (simp add: disk_later_def storage_save_def)
  have early: "disk_later ?r g = disk env" if "writeIO env = Completes dw" "g < dw"
    using that g r by (simp add: disk_later_def storage_save_def)
  have hit: "getCached key fetchFn' config env2
        = \<lparr>settled = Resolves d2 v, disk_after = disk env2, fetchCalls = 0, detached = None\<rparr>"
    if h: "truthy v" "writeIO env = Completes dw" "dw \<le> g"
      "disk env2 = disk_later ?r g" "clock env2 = clock env + int t + int g"
      "initialRead env2 = Completes d2" "d2 \<le> 2000" "int g + int d2 < ttlOf config"
  proof -
    have "disk env2 ?ck = Some ?e" using h(4) landed [OF h(1,2,3)] by simp
    moreover have "clock env2 + int d2 - timestamp ?e < ttlOf config" using h(5,8) by simp
    ultimately show ?thesis using h(6,7)
      by (simp add: getCached_def storage_load_def withTimeout_def afterRead_def cacheValid_def)
  qed
  from tw frame landed early hit show ?thesis by blast
qed

text \<open>
  The claim fails in two ways. For a falsy result: fetchFn succeeds with the number 0, the
  call returns 0, no \<^verbatim>\<open>save\<close> is started (\<^verbatim>\<open>if (freshData)\<close>), and the call that follows
  invokes fetchFn again. For a call that follows at once: fetchFn succeeds with the products,
  the \<^verbatim>\<open>save\<close> takes 20 ms, the store is still empty when the call returns, and a call at
  that moment invokes fetchFn again.
\<close>

theorem getCached_fetch_then_hit_counterexample:
  "withTimeout (Resolves 50 (Num 0)) (timeoutOf noConfig) = Resolves 50 (Num 0)
   \<and> getCached ''count'' (Resolves 50 (Num 0)) noConfig (quickStore 0 Map.empty)
       = \<lparr>settled = Resolves 70 (Num 0), disk_after = Map.empty, fetchCalls = 1, detached = None\<rparr>
   \<and> fetchCalls (getCached ''count'' (Resolves 50 (Num 0)) noConfig (quickStore 70 Map.empty)) = 1
   \<and> withTimeout (Resolves 50 products) (timeoutOf noConfig) = Resolves 50 products
   \<and> settled (getCached ''products'' (Resolves 50 products) noConfig (quickStore 0 Map.empty))
       = Resolves 70 products
   \<and> disk_later (getCached ''products'' (Resolves 50 products) noConfig (quickStore 0 Map.empty)) 0
       = Map.empty
   \<and> fetchCalls (getCached ''products'' (Resolves 50 products) noConfig (quickStore 70 Map.empty)) = 1"
  by (simp add: run_defs example_defs)

text \<open>
  A miss on an empty store, a fetch of the products in 50 ms, a \<^verbatim>\<open>save\<close> that lands 20 ms
  after the return, and the next call at that moment; 19 ms after the return the store is
  still empty.
\<close>

theorem getCached_fetch_then_hit_witness:
  "fetchCalls (getCached ''products'' (Resolves 50 products) noConfig (quickStore 1700000000000 Map.empty)) = 1
   \<and> withTimeout (Resolves 50 products) (timeoutOf noConfig) = Resolves 50 products
   \<and> settled (getCached ''products'' (Resolves 50 products) noConfig (quickStore 1700000000000 Map.empty))
       = Resolves 70 products
   \<and> truthy products
   \<and> writeIO (quickStore 1700000000000 Map.empty) = Completes 20
   \<and> disk_later (getCached ''products'' (Resolves 50 products) noConfig (quickStore 1700000000000 Map.empty)) 20
       = [''cache:products'' \<mapsto> savedProducts 1700000000070 CACHE_VERSION]
   \<and> getCached ''products'' Never noConfig
        (quickStore 1700000000090 [''cache:products'' \<mapsto> savedProducts 1700000000070 CACHE_VERSION])
       = \<lparr>settled = Resolves 20 products,
          disk_after = [''cache:products'' \<mapsto> savedProducts 1700000000070 CACHE_VERSION],
          fetchCalls = 0, detached = None\<rparr>
   \<and> disk_later (getCached ''products'' (Resolves 50 products) noConfig (quickStore 1700000000000 Map.empty)) 19
       = Map.empty"
proof -
  let ?env = "quickStore 1700000000000 Map.empty"
  let ?env2 = "quickStore 1700000000090 [''cache:products'' \<mapsto> savedProducts 1700000000070 CACHE_VERSION]"
  have miss: "fetchCalls (getCached ''products'' (Resolves 50 products) noConfig ?env) = 1"
    by (simp add: run_defs example_defs)
  have fetched: "withTimeout (Resolves 50 products) (timeoutOf noConfig) = Resolves 50 products"
    by (simp add: withTimeout_def timeoutOf_def noConfig_def)
  have returned: "settled (getCached ''products'' (Resolves 50 products) noConfig ?env)
      = Resolves 70 products"
    by (simp add: run_defs example_defs)
  have tr: "truthy products" by (simp add: products_def)
  have wr: "writeIO ?env = Completes 20" by (simp add: quickStore_def)
  note th = getCached_fetch_then_hit [OF miss fetched returned, of 20 20 ?env2 20 Never]
  note th19 = getCached_fetch_then_hit [OF miss fetched returned, of 20 19 ?env2 20 Never]
  from th tr wr have landed: "disk_later (getCached ''products'' (Resolves 50 products) noConfig ?env) 20
      = [''cache:products'' \<mapsto> savedProducts 1700000000070 CACHE_VERSION]"
    by (simp add: quickStore_def noConfig_def prefixOf_def cacheKey_def savedProducts_def)
  have d2: "disk ?env2 = disk_later (getCached ''products'' (Resolves 50 products) noConfig ?env) 20"
    unfolding landed by (simp add: quickStore_def)
  have c2: "clock ?env2 = clock ?env + int 70 + int 20" by (simp add: quickStore_def)
  have r2: "initialRead ?env2 = Completes 20" by (simp add: quickStore_def)
  have age: "int 20 + int 20 < ttlOf noConfig" by (simp add: ttlOf_def noConfig_def)
  from th tr wr d2 c2 r2 age have hit: "getCached ''products'' Never noConfig ?env2
       = \<lparr>settled = Resolves 20 products, disk_after = disk ?env2, fetchCalls = 0, detached = None\<rparr>"
    by simp
  from th19 wr have early:
    "disk_later (getCached ''products'' (Resolves 50 products) noConfig ?env) 19 = Map.empty"
    by (simp add: quickStore_def)
  from miss fetched returned tr wr landed hit early show ?thesis by (simp add: quickStore_def)
qed

subsection \<open>C5\<close>

text \<open>
  C5 (invalidation forces a refetch). When \<^verbatim>\<open>invalidateCache(key, prefix)\<close> has resolved, a
  call of getCached with the same key and prefix on the store that it leaves invokes fetchFn,
  whatever the rest of the configuration, the clock and the behaviour of the reads: the
  deleted entry cannot pass the validity check.
\<close>

theorem invalidateCache_forces_refetch:
  assumes "settled (invalidateCache key pfx env) = Resolves t ()"
    and "disk env2 = disk_after (invalidateCache key pfx env)"
    and "prefixOf config = pfx"
  shows "fetchCalls (getCached key fetchFn config env2) = 1"
proof -
  have "disk env2 (cacheKey (prefixOf config) key) = None"
    using assms
    by (cases "removeIO env (cacheKey pfx key)")
       (auto simp: invalidateCache_def storage_remove_def)
  then have "\<not> cacheValid (disk env2 (cacheKey (prefixOf config) key)) (clock env2) (ttlOf config)"
    by (simp add: cacheValid_def)
  then obtain t1 where "getCached key fetchFn config env2
      = fetchFresh (cacheKey (prefixOf config) key) fetchFn (timeoutOf config) env2 t1"
    using getCached_miss by blast
  then show ?thesis by (simp add: fetchFresh_fetchCalls)
qed

text \<open>
  A valid entry, 10 s old, is invalidated; the call that follows fetches.
\<close>

theorem invalidateCache_forces_refetch_witness:
  "settled (invalidateCache ''products'' ''cache''
      (quickStore 1700000010000 [''cache:products'' \<mapsto> savedProducts 1700000000000 CACHE_VERSION]))
     = Resolves 20 ()
   \<and> disk (quickStore 1700000010020 Map.empty)
     = disk_after (invalidateCache ''products'' ''cache''
         (quickStore 1700000010000 [''cache:products'' \<mapsto> savedProducts 1700000000000 CACHE_VERSION]))
   \<and> prefixOf noConfig = ''cache''
   \<and> fetchCalls (getCached ''products'' (Resolves 50 products) noConfig
        (quickStore 1700000010020 Map.empty)) = 1"
  using invalidateCache_forces_refetch
    [of "''products''" "''cache''"
        "quickStore 1700000010000 [''cache:products'' \<mapsto> savedProducts 1700000000000 CACHE_VERSION]"
        20 "quickStore 1700000010020 Map.empty" noConfig "Resolves 50 products"]
  by (simp add: invalidateCache_def storage_remove_def quickStore_def noConfig_def prefixOf_def
        cacheKey_def)

subsection \<open>C6\<close>

text \<open>
  C6 (partial failure of invalidateCaches), as the code has it. Every deletion is started,
  and a deletion that fails does not keep another from succeeding: in the store that is left,
  each key of the list whose \<^verbatim>\<open>remove\<close> succeeds is gone, and each key of the list whose
  \<^verbatim>\<open>remove\<close> does not succeed is as it was. The failure is not swallowed: the promise of
  invalidateCaches, a \<^verbatim>\<open>Promise.all\<close>, is rejected exactly when the \<^verbatim>\<open>remove\<close> of some key
  of the list rejects, and it is fulfilled exactly when the \<^verbatim>\<open>remove\<close> of every key of the
  list succeeds.
\<close>

theorem invalidateCaches_isolates_deletions:
  "(\<forall>k\<in>set keys. (\<exists>d. removeIO env (cacheKey pfx k) = Completes d) \<longrightarrow>
        disk_after (invalidateCaches keys pfx env) (cacheKey pfx k) = None)
   \<and> (\<forall>k\<in>set keys. (\<nexists>d. removeIO env (cacheKey pfx k) = Completes d) \<longrightarrow>
        disk_after (invalidateCaches keys pfx env) (cacheKey pfx k) = disk env (cacheKey pfx k))
   \<and> ((\<exists>t e. settled (invalidateCaches keys pfx env) = Rejects t e)
        \<longleftrightarrow> (\<exists>k\<in>set keys. \<exists>d. removeIO env (cacheKey pfx k) = Errors d))
   \<and> ((\<exists>t. settled (invalidateCaches keys pfx env) = Resolves t ())
        \<longleftrightarrow> (\<forall>k\<in>set keys. \<exists>d. removeIO env (cacheKey pfx k) = Completes d))"
proof (intro conjI)
  show "\<forall>k\<in>set keys. (\<exists>d. removeIO env (cacheKey pfx k) = Completes d) \<longrightarrow>
        disk_after (invalidateCaches keys pfx env) (cacheKey pfx k) = None"
    by (auto simp: invalidateCaches_def Let_def startInvalidations_disk)
  show "\<forall>k\<in>set keys. (\<nexists>d. removeIO env (cacheKey pfx k) = Completes d) \<longrightarrow>
        disk_after (invalidateCaches keys pfx env) (cacheKey pfx k) = disk env (cacheKey pfx k)"
    by (auto simp: invalidateCaches_def Let_def startInvalidations_disk)
  let ?ps = "map (\<lambda>k. settled (invalidateCache k pfx env)) keys"
  have s: "settled (invalidateCaches keys pfx env)
      = (case Promise_all ?ps of Resolves t vs \<Rightarrow> Resolves t () | Rejects t e \<Rightarrow> Rejects t e | Never \<Rightarrow> Never)"
    by (simp add: invalidateCaches_def Let_def startInvalidations_promises)
  have "(\<exists>t e. settled (invalidateCaches keys pfx env) = Rejects t e)
      \<longleftrightarrow> (\<exists>t e. Promise_all ?ps = Rejects t e)"
    unfolding s by (cases "Promise_all ?ps") simp_all
  also have "\<dots> \<longleftrightarrow> (\<exists>p\<in>set ?ps. \<exists>t e. p = Rejects t e)" by (rule Promise_all_Rejects)
  also have "\<dots> \<longleftrightarrow> (\<exists>k\<in>set keys. \<exists>t e. settled (invalidateCache k pfx env) = Rejects t e)"
    by simp
  also have "\<dots> \<longleftrightarrow> (\<exists>k\<in>set keys. \<exists>d. removeIO env (cacheKey pfx k) = Errors d)"
    by (simp only: invalidateCache_settled_Rejects)
  finally show "(\<exists>t e. settled (invalidateCaches keys pfx env) = Rejects t e)
        \<longleftrightarrow> (\<exists>k\<in>set keys. \<exists>d. removeIO env (cacheKey pfx k) = Errors d)" .
  have "(\<exists>t. settled (invalidateCaches keys pfx env) = Resolves t ())
      \<longleftrightarrow> (\<exists>t vs. Promise_all ?ps = Resolves t vs)"
    unfolding s by (cases "Promise_all ?ps") simp_all
  also have "\<dots> \<longleftrightarrow> (\<forall>p\<in>set ?ps. \<exists>t v. p = Resolves t v)" by (rule Promise_all_Resolves)
  also have "\<dots> \<longleftrightarrow> (\<forall>k\<in>set keys. \<exists>t v. settled (invalidateCache k pfx env) = Resolves t v)"
    by simp
  also have "\<dots> \<longleftrightarrow> (\<forall>k\<in>set keys. \<exists>d. removeIO env (cacheKey pfx k) = Completes d)"
    by (simp only: invalidateCache_settled_Resolves)
  finally show "(\<exists>t. settled (invalidateCaches keys pfx env) = Resolves t ())
        \<longleftrightarrow> (\<forall>k\<in>set keys. \<exists>d. removeIO env (cacheKey pfx k) = Completes d)" .
qed

text \<open>
  The claim that invalidateCaches resolves fails: of the keys k1 and k2 the deletion of k1
  fails after 5 ms; k2 is deleted, and invalidateCaches is rejected with the error of
  \<^verbatim>\<open>remove\<close>.
\<close>

theorem invalidateCaches_isolates_deletions_counterexample:
  "removeIO (brokenRemove 0 twoEntries) ''cache:k1'' = Errors 5
   \<and> settled (invalidateCaches [''k1'', ''k2''] ''cache'' (brokenRemove 0 twoEntries))
       = Rejects 5 (Failure ''remove'')
   \<and> disk_after (invalidateCaches [''k1'', ''k2''] ''cache'' (brokenRemove 0 twoEntries)) ''cache:k2''
       = None"
  by (simp add: invalidateCaches_def invalidateCache_def storage_remove_def brokenRemove_def
        cacheKey_def twoEntries_def Let_def)

text \<open>
  Two keys, the deletion of the first fails: the second is deleted, the first is kept and
  the call is rejected. With a store that deletes both, the call is fulfilled.
\<close>

theorem invalidateCaches_isolates_deletions_witness:
  "removeIO (brokenRemove 0 twoEntries) (cacheKey ''cache'' ''k1'') = Errors 5
   \<and> removeIO (brokenRemove 0 twoEntries) (cacheKey ''cache'' ''k2'') = Completes 20
   \<and> disk_after (invalidateCaches [''k1'', ''k2''] ''cache'' (brokenRemove 0 twoEntries))
        (cacheKey ''cache'' ''k2'') = None
   \<and> disk_after (invalidateCaches [''k1'', ''k2''] ''cache'' (brokenRemove 0 twoEntries))
        (cacheKey ''cache'' ''k1'') = Some (savedProducts 0 CACHE_VERSION)
   \<and> (\<exists>t e. settled (invalidateCaches [''k1'', ''k2''] ''cache'' (brokenRemove 0 twoEntries))
        = Rejects t e)
   \<and> (\<exists>t. settled (invalidateCaches [''k1'', ''k2''] ''cache'' (quickStore 0 twoEntries))
        = Resolves t ())"
  using invalidateCaches_isolates_deletions [of "[''k1'', ''k2'']" "brokenRemove 0 twoEntries" "''cache''"]
    invalidateCaches_isolates_deletions [of "[''k1'', ''k2'']" "quickStore 0 twoEntries" "''cache''"]
  by (simp add: brokenRemove_def quickStore_def cacheKey_def twoEntries_def)

subsection \<open>C7\<close>

text \<open>
  C7 (invalidateCache), as the code has it. invalidateCache settles as its \<^verbatim>\<open>remove\<close> does,
  with no handler of its own: when \<^verbatim>\<open>remove\<close> succeeds it is fulfilled and the entry of
  \<^verbatim>\<open>prefix:key\<close> is gone, whether it was there or not; when \<^verbatim>\<open>remove\<close> rejects it is
  rejected with the same error and the store is as it was; when \<^verbatim>\<open>remove\<close> never settles,
  neither does it. It is idempotent: run again on the store it leaves, it leaves the same
  store and settles in the same way.
\<close>

theorem invalidateCache_follows_remove:
  "(removeIO env (cacheKey pfx key) = Completes d \<longrightarrow>
      invalidateCache key pfx env
        = \<lparr>settled = Resolves d (), disk_after = (disk env)(cacheKey pfx key := None), fetchCalls = 0\<rparr>)
   \<and> (removeIO env (cacheKey pfx key) = Errors d \<longrightarrow>
      invalidateCache key pfx env
        = \<lparr>settled = Rejects d (Failure ''remove''), disk_after = disk env, fetchCalls = 0\<rparr>)
   \<and> (removeIO env (cacheKey pfx key) = Stalls \<longrightarrow>
      invalidateCache key pfx env = \<lparr>settled = Never, disk_after = disk env, fetchCalls = 0\<rparr>)
   \<and> invalidateCache key pfx (env\<lparr>disk := disk_after (invalidateCache key pfx env)\<rparr>)
        = invalidateCache key pfx env"
  by (cases "removeIO env (cacheKey pfx key)")
     (simp_all add: invalidateCache_def storage_remove_def)

text \<open>
  The claim that invalidateCache resolves for every store fails: the \<^verbatim>\<open>remove\<close> of
  \<^verbatim>\<open>cache:k1\<close> rejects, and so does \<^verbatim>\<open>invalidateCache("k1")\<close>; the entry stays.
\<close>

theorem invalidateCache_follows_remove_counterexample:
  "settled (invalidateCache ''k1'' ''cache'' (brokenRemove 0 twoEntries))
     = Rejects 5 (Failure ''remove'')
   \<and> disk_after (invalidateCache ''k1'' ''cache'' (brokenRemove 0 twoEntries)) ''cache:k1''
     = Some (savedProducts 0 CACHE_VERSION)"
  by (simp add: invalidateCache_def storage_remove_def brokenRemove_def cacheKey_def twoEntries_def)

text \<open>
  A deletion that succeeds on a store without the entry, a deletion that fails, and a
  deletion that never settles.
\<close>

theorem invalidateCache_follows_remove_witness:
  "removeIO (quickStore 0 Map.empty) (cacheKey ''cache'' ''products'') = Completes 20
   \<and> invalidateCache ''products'' ''cache'' (quickStore 0 Map.empty)
       = \<lparr>settled = Resolves 20 (), disk_after = Map.empty, fetchCalls = 0\<rparr>
   \<and> removeIO (brokenRemove 0 twoEntries) (cacheKey ''cache'' ''k1'') = Errors 5
   \<and> invalidateCache ''k1'' ''cache'' (brokenRemove 0 twoEntries)
       = \<lparr>settled = Rejects 5 (Failure ''remove''), disk_after = twoEntries, fetchCalls = 0\<rparr>
   \<and> removeIO (quickStore 0 twoEntries\<lparr>removeIO := \<lambda>k. Stalls\<rparr>) (cacheKey ''cache'' ''k1'') = Stalls
   \<and> invalidateCache ''k1'' ''cache'' (quickStore 0 twoEntries\<lparr>removeIO := \<lambda>k. Stalls\<rparr>)
       = \<lparr>settled = Never, disk_after = twoEntries, fetchCalls = 0\<rparr>"
  using invalidateCache_follows_remove [of "quickStore 0 Map.empty" "''cache''" "''products''" 20]
    invalidateCache_follows_remove [of "brokenRemove 0 twoEntries" "''cache''" "''k1''" 5]
    invalidateCache_follows_remove
      [of "quickStore 0 twoEntries\<lparr>removeIO := \<lambda>k. Stalls\<rparr>" "''cache''" "''k1''" 0]
  by (simp add: quickStore_def brokenRemove_def cacheKey_def)

subsection \<open>C8\<close>

text \<open>
  C8 (preCache), as the code has it. preCache invokes fetchFn once, whatever the store holds,
  and awaits it with no timer: when fetchFn never settles, neither does preCache. It is never
  rejected. When fetchFn fulfils with a truthy value and the \<^verbatim>\<open>save\<close> succeeds, the store holds
  \<^verbatim>\<open>{data, timestamp: now, version: CACHE_VERSION}\<close> under \<^verbatim>\<open>prefix:key\<close>, with \<open>now\<close> the clock
  when fetchFn settled; when the \<^verbatim>\<open>save\<close> rejects, when the value is falsy and when fetchFn
  rejects, preCache is fulfilled and the store is as it was.
\<close>

theorem preCache_warms:
  "fetchCalls (preCache key fetchFn config env) = 1
   \<and> settled (preCache key fetchFn config env) \<noteq> Rejects t' err
   \<and> (fetchFn = Never \<longrightarrow> settled (preCache key fetchFn config env) = Never)
   \<and> (fetchFn = Resolves t d \<and> truthy d \<and> writeIO env = Completes dw \<longrightarrow>
        preCache key fetchFn config env
          = \<lparr>settled = Resolves (t + dw) (),
             disk_after = (disk env)(cacheKey (prefixOf config) key \<mapsto>
               \<lparr>data = d, timestamp = clock env + int t, version = CACHE_VERSION\<rparr>),
             fetchCalls = 1\<rparr>)
   \<and> (fetchFn = Resolves t d \<and> truthy d \<and> writeIO env = Errors dw \<longrightarrow>
        preCache key fetchFn config env
          = \<lparr>settled = Resolves (t + dw) (), disk_after = disk env, fetchCalls = 1\<rparr>)
   \<and> (fetchFn = Resolves t d \<and> \<not> truthy d \<longrightarrow>
        preCache key fetchFn config env
          = \<lparr>settled = Resolves t (), disk_after = disk env, fetchCalls = 1\<rparr>)
   \<and> (fetchFn = Rejects t e \<longrightarrow>
        preCache key fetchFn config env
          = \<lparr>settled = Resolves t (), disk_after = disk env, fetchCalls = 1\<rparr>)"
proof (cases fetchFn)
  case (Resolves t0 d0)
  then show ?thesis
    by (cases "writeIO env") (simp_all add: preCache_def storage_save_def)
next
  case (Rejects t0 e0)
  then show ?thesis by (simp add: preCache_def)
next
  case Never
  then show ?thesis by (simp add: preCache_def)
qed

text \<open>
  The claim that every result that is not absent is persisted fails: fetchFn gives the
  number 0, which is neither null nor undefined, and nothing is written (\<^verbatim>\<open>if (data)\<close>).
\<close>

theorem preCache_warms_counterexample:
  "Num 0 \<noteq> Null \<and> Num 0 \<noteq> Undefined
   \<and> preCache ''count'' (Resolves 50 (Num 0)) noConfig (quickStore 0 Map.empty)
       = \<lparr>settled = Resolves 50 (), disk_after = Map.empty, fetchCalls = 1\<rparr>"
  by (simp add: preCache_def quickStore_def)

text \<open>
  A fetch that takes a minute is awaited and saved; a save that fails, a result that is
  \<^verbatim>\<open>false\<close> and a fetch that rejects leave the store as it was; a fetch that never settles is
  awaited for ever.
\<close>

theorem preCache_warms_witness:
  "truthy products \<and> writeIO (quickStore 1700000000000 Map.empty) = Completes 20
   \<and> preCache ''products'' (Resolves 60000 products) noConfig (quickStore 1700000000000 Map.empty)
       = \<lparr>settled = Resolves 60020 (),
          disk_after = [''cache:products'' \<mapsto> savedProducts 1700000060000 CACHE_VERSION],
          fetchCalls = 1\<rparr>
   \<and> writeIO (quickStore 1700000000000 Map.empty\<lparr>writeIO := Errors 5\<rparr>) = Errors 5
   \<and> preCache ''products'' (Resolves 60000 products) noConfig
        (quickStore 1700000000000 Map.empty\<lparr>writeIO := Errors 5\<rparr>)
       = \<lparr>settled = Resolves 60005 (), disk_after = Map.empty, fetchCalls = 1\<rparr>
   \<and> \<not> truthy (Bool False)
   \<and> preCache ''products'' (Resolves 50 (Bool False)) noConfig (quickStore 1700000000000 Map.empty)
       = \<lparr>settled = Resolves 50 (), disk_after = Map.empty, fetchCalls = 1\<rparr>
   \<and> preCache ''products'' (Rejects 50 (Failure ''offline'')) noConfig (quickStore 1700000000000 Map.empty)
       = \<lparr>settled = Resolves 50 (), disk_after = Map.empty, fetchCalls = 1\<rparr>
   \<and> settled (preCache ''products'' Never noConfig (quickStore 1700000000000 Map.empty)) = Never"
  using preCache_warms [of "''products''" "Resolves 60000 products" noConfig
      "quickStore 1700000000000 Map.empty" 0 "Failure []" 60000 products 20 "Failure []"]
    preCache_warms [of "''products''" "Resolves 60000 products" noConfig
      "quickStore 1700000000000 Map.empty\<lparr>writeIO := Errors 5\<rparr>" 0 "Failure []" 60000 products 5
      "Failure []"]
    preCache_warms [of "''products''" "Resolves 50 (Bool False)" noConfig
      "quickStore 1700000000000 Map.empty" 0 "Failure []" 50 "Bool False" 0 "Failure []"]
    preCache_warms [of "''products''" "Rejects 50 (Failure ''offline'')" noConfig
      "quickStore 1700000000000 Map.empty" 0 "Failure []" 50 Null 0 "Failure ''offline''"]
    preCache_warms [of "''products''" Never noConfig
      "quickStore 1700000000000 Map.empty" 0 "Failure []" 0 Null 0 "Failure []"]
  by (simp add: quickStore_def noConfig_def prefixOf_def cacheKey_def products_def savedProducts_def)

subsection \<open>C9\<close>

text \<open>
  C9 (bounded latency). For every key, fetchFn, configuration, clock, store and behaviour of
  the storage calls, also those that never settle, getCached is fulfilled no later than the
  timeout of the configuration plus the bounds of the two reads, 2000 ms and 1000 ms, after
  the call. The time is that of the awaited promises and timers; the synchronous steps take
  none.
\<close>

theorem getCached_bounded_latency:
  "\<exists>t v. settled (getCached key fetchFn config env) = Resolves t v
     \<and> t \<le> timeoutOf config + (2000 + 1000)"
  using getCached_settles [of key fetchFn config env] by auto

text \<open>
  A store whose reads never settle and a fetchFn that never settles, with the default timeout
  of 10000 ms.
\<close>

theorem getCached_bounded_latency_witness:
  "\<exists>t v. settled (getCached ''products'' Never noConfig
                   (quickStore 0 Map.empty\<lparr>initialRead := Stalls, fallbackRead := Stalls\<rparr>))
            = Resolves t v \<and> t \<le> 13000"
  using getCached_bounded_latency
    [of "''products''" Never noConfig
        "quickStore 0 Map.empty\<lparr>initialRead := Stalls, fallbackRead := Stalls\<rparr>"]
  by (simp add: noConfig_def timeoutOf_def)

subsection \<open>C10\<close>

text \<open>
  C10 (a falsy result is returned and not saved), as the code has it. When a call of getCached
  misses, that is, invokes fetchFn, and the fetch bounded by the timeout fulfils with a falsy
  value, then getCached returns that value, starts no \<^verbatim>\<open>save\<close>, and the store is as it was,
  when the call returns and at any time after. A call with the same key and configuration
  that follows invokes fetchFn again when the first read of the earlier call had given the
  stored entry (the miss was one of the entry, not of the read), and more generally when the
  stored entry is not valid at some moment \<open>now0\<close> before the later call starts.
\<close>

theorem getCached_falsy_not_saved:
  assumes miss: "fetchCalls (getCached key fetchFn config env) = 1"
    and fetched: "withTimeout fetchFn (timeoutOf config) = Resolves t2 v"
    and falsy: "\<not> truthy v"
  shows "(\<exists>t. settled (getCached key fetchFn config env) = Resolves t v)
    \<and> detached (getCached key fetchFn config env) = None
    \<and> disk_after (getCached key fetchFn config env) = disk env
    \<and> disk_later (getCached key fetchFn config env) g = disk env
    \<and> (initialRead env = Completes d \<and> d \<le> 2000
         \<and> disk env2 = disk_later (getCached key fetchFn config env) g
         \<and> clock env + int d \<le> clock env2 \<longrightarrow>
         fetchCalls (getCached key fetchFn' config env2) = 1)
    \<and> (\<not> cacheValid (disk env (cacheKey (prefixOf config) key)) now0 (ttlOf config)
         \<and> now0 \<le> clock env2
         \<and> disk env2 = disk_later (getCached key fetchFn config env) g \<longrightarrow>
         fetchCalls (getCached key fetchFn' config env2) = 1)"
proof -
  let ?ck = "cacheKey (prefixOf config) key"
  let ?r = "getCached key fetchFn config env"
  obtain t1 where g: "?r = fetchFresh ?ck fetchFn (timeoutOf config) env t1"
    using getCached_miss_run [OF miss] by blast
  have r: "fetchFresh ?ck fetchFn (timeoutOf config) env t1
      = \<lparr>settled = Resolves (t1 + t2) v, disk_after = disk env, fetchCalls = 1, detached = None\<rparr>"
    using fetched falsy by (simp add: fetchFresh_def)
  have later: "disk_later ?r g = disk env" using g r by (simp add: disk_later_def)
  have again: "fetchCalls (getCached key fetchFn' config env2) = 1"
    if "\<not> cacheValid (disk env ?ck) now0 (ttlOf config)" "now0 \<le> clock env2"
      "disk env2 = disk_later ?r g" for now0
  proof -
    have "\<not> cacheValid (disk env2 ?ck) (clock env2) (ttlOf config)"
      using cacheValid_later [OF that(1,2)] that(3) later by simp
    then obtain t1' where "getCached key fetchFn' config env2
        = fetchFresh ?ck fetchFn' (timeoutOf config) env2 t1'"
      using getCached_miss by blast
    then show ?thesis by (simp add: fetchFresh_fetchCalls)
  qed
  have again_read: "fetchCalls (getCached key fetchFn' config env2) = 1"
    if "initialRead env = Completes d" "d \<le> 2000" "disk env2 = disk_later ?r g"
      "clock env + int d \<le> clock env2"
    using again [OF getCached_miss_read [OF miss that(1,2)] that(4,3)] .
  from g r later again again_read show ?thesis by auto
qed

text \<open>
  The claim for every miss fails in its last part: the store holds a valid entry, the first
  read takes 2500 ms and is given up, fetchFn gives the number 0, which is returned and not
  saved; the call that follows at once, on a store that answers in time, returns the stored
  products and does not invoke fetchFn.
\<close>

theorem getCached_falsy_not_saved_counterexample:
  "cacheValid (disk (slowRead 1700000010000
                   [''cache:products'' \<mapsto> savedProducts 1700000000000 CACHE_VERSION])
                 (cacheKey (prefixOf noConfig) ''products''))
       (1700000010000 + 2000) (ttlOf noConfig)
   \<and> withTimeout (Resolves 50 (Num 0)) (timeoutOf noConfig) = Resolves 50 (Num 0)
   \<and> \<not> truthy (Num 0)
   \<and> getCached ''products'' (Resolves 50 (Num 0)) noConfig
        (slowRead 1700000010000 [''cache:products'' \<mapsto> savedProducts 1700000000000 CACHE_VERSION])
       = \<lparr>settled = Resolves 2050 (Num 0),
          disk_after = [''cache:products'' \<mapsto> savedProducts 1700000000000 CACHE_VERSION],
          fetchCalls = 1, detached = None\<rparr>
   \<and> getCached ''products'' (Resolves 50 (Num 0)) noConfig
        (quickStore 1700000012050 [''cache:products'' \<mapsto> savedProducts 1700000000000 CACHE_VERSION])
       = \<lparr>settled = Resolves 20 products,
          disk_after = [''cache:products'' \<mapsto> savedProducts 1700000000000 CACHE_VERSION],
          fetchCalls = 0, detached = None\<rparr>"
  by (simp add: run_defs example_defs)

text \<open>
  An expired entry, a fetchFn that gives the empty string, and the call that follows 70 ms
  later.
\<close>

theorem getCached_falsy_not_saved_witness:
  "fetchCalls (getCached ''count'' (Resolves 50 (Str [])) noConfig
        (quickStore 1700000000000 [''cache:count'' \<mapsto> savedZero 0])) = 1
   \<and> withTimeout (Resolves 50 (Str [])) (timeoutOf noConfig) = Resolves 50 (Str [])
   \<and> \<not> truthy (Str [])
   \<and> (\<exists>t. settled (getCached ''count'' (Resolves 50 (Str [])) noConfig
             (quickStore 1700000000000 [''cache:count'' \<mapsto> savedZero 0])) = Resolves t (Str []))
   \<and> detached (getCached ''count'' (Resolves 50 (Str [])) noConfig
             (quickStore 1700000000000 [''cache:count'' \<mapsto> savedZero 0])) = None
   \<and> disk_later (getCached ''count'' (Resolves 50 (Str [])) noConfig
             (quickStore 1700000000000 [''cache:count'' \<mapsto> savedZero 0])) 0
       = [''cache:count'' \<mapsto> savedZero 0]
   \<and> initialRead (quickStore 1700000000000 [''cache:count'' \<mapsto> savedZero 0]) = Completes 20
   \<and> \<not> cacheValid (disk (quickStore 1700000000000 [''cache:count'' \<mapsto> savedZero 0])
                   (cacheKey (prefixOf noConfig) ''count'')) 1700000000000 (ttlOf noConfig)
   \<and> fetchCalls (getCached ''count'' (Resolves 50 (Num 7)) noConfig
             (quickStore 1700000000070 [''cache:count'' \<mapsto> savedZero 0])) = 1"
proof -
  let ?env = "quickStore 1700000000000 [''cache:count'' \<mapsto> savedZero 0]"
  let ?env2 = "quickStore 1700000000070 [''cache:count'' \<mapsto> savedZero 0]"
  have miss: "fetchCalls (getCached ''count'' (Resolves 50 (Str [])) noConfig ?env) = 1"
    by (simp add: run_defs example_defs)
  have fetched: "withTimeout (Resolves 50 (Str [])) (timeoutOf noConfig) = Resolves 50 (Str [])"
    by (simp add: withTimeout_def timeoutOf_def noConfig_def)
  have falsy: "\<not> truthy (Str [])" by simp
  note th = getCached_falsy_not_saved [OF miss fetched falsy, of 0 20 ?env2 "Resolves 50 (Num 7)"
      1700000000000]
  have rd: "initialRead ?env = Completes 20" by (simp add: quickStore_def)
  have inv: "\<not> cacheValid (disk ?env (cacheKey (prefixOf noConfig) ''count'')) 1700000000000
      (ttlOf noConfig)"
    by (simp add: cacheValid_def quickStore_def savedZero_def noConfig_def prefixOf_def
          ttlOf_def cacheKey_def)
  from th have later: "disk_later (getCached ''count'' (Resolves 50 (Str [])) noConfig ?env) 0
      = disk ?env" by simp
  have d2: "disk ?env2 = disk_later (getCached ''count'' (Resolves 50 (Str [])) noConfig ?env) 0"
    unfolding later by (simp add: quickStore_def)
  have c2: "clock ?env + int 20 \<le> clock ?env2" by (simp add: quickStore_def)
  from th rd d2 c2 have again: "fetchCalls (getCached ''count'' (Resolves 50 (Num 7)) noConfig ?env2) = 1"
    by simp
  from th have "\<exists>t. settled (getCached ''count'' (Resolves 50 (Str [])) noConfig ?env)
      = Resolves t (Str [])" and "detached (getCached ''count'' (Resolves 50 (Str [])) noConfig ?env) = None"
    by simp_all
  with miss fetched falsy later rd inv again show ?thesis by (simp add: quickStore_def)
qed

end
